theory Spec2Isabelle
  imports Complex_Main
begin

section \<open>Python values and exceptions\<close>

text \<open>
  The module \<^verbatim>\<open>watch_data.py\<close> is embedded function by function. A Python exception is
  a value of type \<open>error\<close>; a function that may raise returns \<open>error + 'a\<close>, with
  \<open>Inl\<close> for the raised exception. Python floats are modelled by \<open>real\<close>: the
  arithmetic is exact, so rounding, infinities and NaN are outside the model. Everything
  proved below is about which branch runs, which exception is raised and which exact
  quotient or product is formed.
\<close>

datatype error =
    ValueError string
  | TypeError
  | ZeroDivisionError
  | KeyError string

text \<open>The values a filter may hand back to \<^verbatim>\<open>if filt(element)\<close>.\<close>

datatype pyval = PNone | PBool bool | PInt int | PFloat real | PStr string

text \<open>Python truthiness, as the \<^verbatim>\<open>if\<close> statement tests it.\<close>

fun truthy :: "pyval \<Rightarrow> bool" where
  "truthy PNone = False"
| "truthy (PBool b) = b"
| "truthy (PInt n) = (n \<noteq> 0)"
| "truthy (PFloat r) = (r \<noteq> 0)"
| "truthy (PStr s) = (s \<noteq> [])"

text \<open>Sequencing of statements that may raise: the first exception ends the run.\<close>

definition bind :: "error + 'a \<Rightarrow> ('a \<Rightarrow> error + 'b) \<Rightarrow> error + 'b" where
  "bind m f = (case m of Inl e \<Rightarrow> Inl e | Inr v \<Rightarrow> f v)"

section \<open>Unit conversion and speed\<close>

text \<open>
  \<^verbatim>\<open>_convert_time\<close> (nested in \<^verbatim>\<open>calculate_speed\<close>). An inner \<^verbatim>\<open>if/elif\<close>
  chain without \<^verbatim>\<open>else\<close> falls off the end of the function, which returns
  \<^verbatim>\<open>None\<close>: the result is \<open>Inr None\<close>.
\<close>

definition convert_time :: "real \<Rightarrow> string \<Rightarrow> string \<Rightarrow> error + real option" where
  "convert_time time time_unit output_time_unit =
     (if time_unit = ''seconds'' then
        (if output_time_unit = ''minutes'' then Inr (Some (time / 60))
         else if output_time_unit = ''hours'' then Inr (Some (time / 3600))
         else Inr None)
      else if time_unit = ''minutes'' then
        (if output_time_unit = ''seconds'' then Inr (Some (time * 60))
         else if output_time_unit = ''hours'' then Inr (Some (time / 60))
         else Inr None)
      else if time_unit = ''hours'' then
        (if output_time_unit = ''seconds'' then Inr (Some (time * 3600))
         else if output_time_unit = ''minutes'' then Inr (Some (time * 60))
         else Inr None)
      else Inl (ValueError (''Invalid time unit: '' @ time_unit)))"

text \<open>The message of the two inner \<^verbatim>\<open>raise\<close> statements of \<^verbatim>\<open>_convert_distance\<close>.\<close>

definition output_unit_message :: string where
  "output_unit_message = ''output_distance_unit must be 'mi' or 'km'' @ [CHR 0x27]"

text \<open>\<^verbatim>\<open>_convert_distance\<close> (nested in \<^verbatim>\<open>calculate_speed\<close>).\<close>

definition convert_distance :: "real \<Rightarrow> string \<Rightarrow> string \<Rightarrow> error + real" where
  "convert_distance distance distance_unit output_distance_unit =
     (if distance_unit = ''km'' then
        (if output_distance_unit = ''mi'' then Inr (distance * 0.621371)
         else if output_distance_unit = ''km'' then Inr distance
         else Inl (ValueError output_unit_message))
      else if distance_unit = ''mi'' then
        (if output_distance_unit = ''km'' then Inr (distance * 1.60934)
         else if output_distance_unit = ''mi'' then Inr distance
         else Inl (ValueError output_unit_message))
      else Inl (ValueError (''Invalid distance unit: '' @ distance_unit)))"

text \<open>
  The final \<^verbatim>\<open>distance / time\<close>. The variable \<^verbatim>\<open>time\<close> holds a float or the
  \<^verbatim>\<open>None\<close> that \<^verbatim>\<open>_convert_time\<close> returned; dividing a float by \<^verbatim>\<open>None\<close>
  raises \<^verbatim>\<open>TypeError\<close>, dividing by zero raises \<^verbatim>\<open>ZeroDivisionError\<close>.
\<close>

definition py_truediv :: "real \<Rightarrow> real option \<Rightarrow> error + real" where
  "py_truediv distance time =
     (case time of
        None \<Rightarrow> Inl TypeError
      | Some t \<Rightarrow> if t = 0 then Inl ZeroDivisionError else Inr (distance / t))"

text \<open>A call of one of the two nested conversion functions, with its arguments.\<close>

datatype call =
    Call_convert_distance real string string
  | Call_convert_time real string string

text \<open>
  The body of \<^verbatim>\<open>calculate_speed\<close>, lines 135 to 147. Beside the outcome it returns
  the conversion calls it made, in order, so that a statement about which conversions ran
  can be read off.
\<close>

definition calculate_speed_run ::
  "real \<Rightarrow> real \<Rightarrow> string \<Rightarrow> string \<Rightarrow> string \<Rightarrow> string \<Rightarrow> call list \<times> (error + real)" where
  "calculate_speed_run distance time distance_unit time_unit output_distance_unit output_time_unit =
     (let output_distance_unit =
            (if output_distance_unit = [] then distance_unit else output_distance_unit);
          output_time_unit =
            (if output_time_unit = [] then time_unit else output_time_unit);
          (calls1, d) =
            (if distance_unit \<noteq> output_distance_unit
             then ([Call_convert_distance distance distance_unit output_distance_unit],
                   convert_distance distance distance_unit output_distance_unit)
             else ([], Inr distance))
      in case d of
           Inl e \<Rightarrow> (calls1, Inl e)
         | Inr distance' \<Rightarrow>
             (let (calls2, t) =
                    (if time_unit \<noteq> output_time_unit
                     then ([Call_convert_time time time_unit output_time_unit],
                           convert_time time time_unit output_time_unit)
                     else ([], Inr (Some time)))
              in case t of
                   Inl e \<Rightarrow> (calls1 @ calls2, Inl e)
                 | Inr time' \<Rightarrow> (calls1 @ calls2, py_truediv distance' time')))"

text \<open>\<^verbatim>\<open>calculate_speed\<close>: the outcome alone.\<close>

definition calculate_speed ::
  "real \<Rightarrow> real \<Rightarrow> string \<Rightarrow> string \<Rightarrow> string \<Rightarrow> string \<Rightarrow> error + real" where
  "calculate_speed distance time distance_unit time_unit output_distance_unit output_time_unit =
     snd (calculate_speed_run distance time distance_unit time_unit
            output_distance_unit output_time_unit)"

text \<open>The unit that the output is expressed in: the empty default stands for the input unit.\<close>

definition effective_unit :: "string \<Rightarrow> string \<Rightarrow> string" where
  "effective_unit unit output_unit = (if output_unit = [] then unit else output_unit)"

definition distance_units :: "string set" where
  "distance_units = {''km'', ''mi''}"

definition time_units :: "string set" where
  "time_units = {''seconds'', ''minutes'', ''hours''}"

text \<open>Relative closeness with tolerance \<open>rel\<close>, as \<^verbatim>\<open>math.isclose\<close> computes it.\<close>

definition isclose :: "real \<Rightarrow> real \<Rightarrow> real \<Rightarrow> bool" where
  "isclose rel a b = (\<bar>a - b\<bar> \<le> rel * max \<bar>a\<bar> \<bar>b\<bar>)"

text \<open>
  A conversion from unit \<open>A\<close> to unit \<open>B\<close> followed by the conversion back, in exact
  arithmetic.
\<close>

definition round_trip :: "real \<Rightarrow> string \<Rightarrow> string \<Rightarrow> error + real" where
  "round_trip d A B = bind (convert_distance d A B) (\<lambda>d'. convert_distance d' B A)"

subsection \<open>Double arithmetic\<close>

text \<open>
  A double operation is the exact operation followed by rounding to the nearest double.
  The rounding \<open>rnd\<close> is a parameter. The predicate \<open>double_rounding\<close> states what
  round-to-nearest of IEEE 754 binary64 guarantees: zero is kept, and a real whose
  magnitude lies between the smallest normal double \<open>min_normal\<close> and the largest double
  \<open>max_double\<close> is rounded with a relative error of at most one in \<open>2 ^ 53\<close>. Outside
  that range (underflow, overflow) nothing is said about \<open>rnd\<close>.
\<close>

definition min_normal :: real where
  "min_normal = 1 / 2 ^ 1022"

definition max_double :: real where
  "max_double = (2 - 1 / 2 ^ 52) * 2 ^ 1023"

definition double_rounding :: "(real \<Rightarrow> real) \<Rightarrow> bool" where
  "double_rounding rnd =
     (rnd 0 = 0 \<and>
      (\<forall>x. min_normal \<le> \<bar>x\<bar> \<and> \<bar>x\<bar> \<le> max_double \<longrightarrow> \<bar>rnd x - x\<bar> \<le> \<bar>x\<bar> / 2 ^ 53))"

text \<open>
  \<^verbatim>\<open>_convert_distance\<close> with the rounding written out: the literal factor is the double
  nearest to the decimal, and the product is rounded. With the identity for \<open>rnd\<close> this is
  \<open>convert_distance\<close>.
\<close>

definition fl_convert_distance ::
  "(real \<Rightarrow> real) \<Rightarrow> real \<Rightarrow> string \<Rightarrow> string \<Rightarrow> error + real" where
  "fl_convert_distance rnd distance distance_unit output_distance_unit =
     (if distance_unit = ''km'' then
        (if output_distance_unit = ''mi'' then Inr (rnd (distance * rnd 0.621371))
         else if output_distance_unit = ''km'' then Inr distance
         else Inl (ValueError output_unit_message))
      else if distance_unit = ''mi'' then
        (if output_distance_unit = ''km'' then Inr (rnd (distance * rnd 1.60934))
         else if output_distance_unit = ''mi'' then Inr distance
         else Inl (ValueError output_unit_message))
      else Inl (ValueError (''Invalid distance unit: '' @ distance_unit)))"

definition fl_round_trip :: "(real \<Rightarrow> real) \<Rightarrow> real \<Rightarrow> string \<Rightarrow> string \<Rightarrow> error + real" where
  "fl_round_trip rnd d A B =
     bind (fl_convert_distance rnd d A B) (\<lambda>d'. fl_convert_distance rnd d' B A)"

section \<open>Timestamps\<close>

text \<open>
  What \<^verbatim>\<open>datetime.strptime\<close> returns for the format
  \<^verbatim>\<open>'%Y-%m-%d %H:%M:%S %z'\<close>: the fields of the local time and, since the format
  holds \<^verbatim>\<open>%z\<close>, always a fixed offset from UTC, kept in microseconds as
  \<^verbatim>\<open>timedelta\<close> keeps it.
\<close>

record datetime =
  year :: int
  month :: int
  day :: int
  hour :: int
  minute :: int
  second :: int
  microsecond :: int
  utcoffset :: int

definition timestamp_format :: string where
  "timestamp_format = ''%Y-%m-%d %H:%M:%S %z''"

text \<open>The proleptic Gregorian ordinal of a date, \<^verbatim>\<open>toordinal()\<close>: day 1 is 0001-01-01.\<close>

definition is_leap :: "int \<Rightarrow> bool" where
  "is_leap y = (y mod 4 = 0 \<and> (y mod 100 \<noteq> 0 \<or> y mod 400 = 0))"

definition days_before_year :: "int \<Rightarrow> int" where
  "days_before_year y = (y - 1) * 365 + (y - 1) div 4 - (y - 1) div 100 + (y - 1) div 400"

definition days_in_month :: "int \<Rightarrow> int \<Rightarrow> int" where
  "days_in_month y m =
     (if m = 2 then (if is_leap y then 29 else 28)
      else if m = 4 \<or> m = 6 \<or> m = 9 \<or> m = 11 then 30 else 31)"

definition days_before_month :: "int \<Rightarrow> int \<Rightarrow> int" where
  "days_before_month y m = (\<Sum>k \<leftarrow> [1..<nat m]. days_in_month y (int k))"

definition toordinal :: "datetime \<Rightarrow> int" where
  "toordinal dt = days_before_year (year dt) + days_before_month (year dt) (month dt) + day dt"

text \<open>
  \<^verbatim>\<open>self - other\<close> for two aware datetimes: a \<^verbatim>\<open>timedelta\<close>, here its whole
  value in microseconds. Both local times are moved to UTC before they are subtracted.
\<close>

definition local_microseconds :: "datetime \<Rightarrow> int" where
  "local_microseconds dt =
     ((toordinal dt * 86400 + hour dt * 3600 + minute dt * 60 + second dt) * 1000000
      + microsecond dt)"

definition datetime_sub :: "datetime \<Rightarrow> datetime \<Rightarrow> int" where
  "datetime_sub self other =
     (local_microseconds self - local_microseconds other) + utcoffset other - utcoffset self"

definition total_seconds :: "int \<Rightarrow> real" where
  "total_seconds td = real_of_int td / 1000000"

text \<open>
  \<^verbatim>\<open>time_difference\<close>. The parser \<^verbatim>\<open>datetime.strptime\<close> belongs to the Python
  library and is a parameter: it maps a string and a format to a datetime or raises.
\<close>

definition invalid_unit_message :: "string \<Rightarrow> string" where
  "invalid_unit_message unit =
     ''Invalid unit: '' @ unit
       @ ''. Possible units are: seconds, minutes, hours, days, weeks, years.''"

definition time_difference ::
  "(string \<Rightarrow> string \<Rightarrow> error + datetime) \<Rightarrow> string \<Rightarrow> string \<Rightarrow> string \<Rightarrow> error + real" where
  "time_difference strptime d1 d2 unit =
     bind (strptime d1 timestamp_format) (\<lambda>d1.
     bind (strptime d2 timestamp_format) (\<lambda>d2.
       (let absolute_difference_in_seconds = \<bar>total_seconds (datetime_sub d2 d1)\<bar>
        in if unit = ''seconds'' then Inr absolute_difference_in_seconds
           else if unit = ''minutes'' then Inr (absolute_difference_in_seconds / 60)
           else if unit = ''hours'' then Inr (absolute_difference_in_seconds / 3600)
           else if unit = ''days'' then Inr (absolute_difference_in_seconds / 86400)
           else if unit = ''weeks'' then Inr (absolute_difference_in_seconds / 604800)
           else if unit = ''years'' then Inr (absolute_difference_in_seconds / 31556926)
           else Inl (ValueError (invalid_unit_message unit)))))"

text \<open>The table of divisors, as the specification lists it.\<close>

definition unit_divisor :: "string \<Rightarrow> real option" where
  "unit_divisor unit =
     map_of [(''seconds'', 1), (''minutes'', 60), (''hours'', 3600), (''days'', 86400),
             (''weeks'', 604800), (''years'', 31556926)] unit"

text \<open>The absolute elapsed seconds between two parsed instants.\<close>

definition elapsed_seconds :: "datetime \<Rightarrow> datetime \<Rightarrow> real" where
  "elapsed_seconds a b = \<bar>total_seconds (datetime_sub b a)\<bar>"

subsection \<open>A parser for the wire format\<close>

text \<open>
  Modelled from the spec: \<^verbatim>\<open>datetime.strptime\<close> is library code outside the
  repository. The specification fixes the wire format
  \<^verbatim>\<open>YYYY-MM-DD HH:MM:SS +HHMM\<close> (sign \<^verbatim>\<open>+\<close> or \<^verbatim>\<open>-\<close>) and a parse error for
  anything else; \<open>strptime_wire\<close> reads exactly the 25 characters of that format. It is
  used to run the functions on concrete timestamps; the theorems hold for every parser.
\<close>

definition digit :: "char \<Rightarrow> int option" where
  "digit c =
     map_of [(CHR ''0'', 0), (CHR ''1'', 1), (CHR ''2'', 2), (CHR ''3'', 3), (CHR ''4'', 4),
             (CHR ''5'', 5), (CHR ''6'', 6), (CHR ''7'', 7), (CHR ''8'', 8), (CHR ''9'', 9)] c"

fun number_from :: "int \<Rightarrow> string \<Rightarrow> int option" where
  "number_from acc [] = Some acc"
| "number_from acc (c # cs) =
     (case digit c of None \<Rightarrow> None | Some d \<Rightarrow> number_from (10 * acc + d) cs)"

definition field :: "string \<Rightarrow> nat \<Rightarrow> nat \<Rightarrow> int option" where
  "field s pos len = number_from 0 (take len (drop pos s))"

definition parse_error :: "string \<Rightarrow> string \<Rightarrow> error" where
  "parse_error s fmt = ValueError (''time data '' @ s @ '' does not match format '' @ fmt)"

definition strptime_wire :: "string \<Rightarrow> string \<Rightarrow> error + datetime" where
  "strptime_wire s fmt =
     (if length s \<noteq> 25 \<or> s ! 4 \<noteq> CHR ''-'' \<or> s ! 7 \<noteq> CHR ''-'' \<or> s ! 10 \<noteq> CHR '' ''
         \<or> s ! 13 \<noteq> CHR '':'' \<or> s ! 16 \<noteq> CHR '':'' \<or> s ! 19 \<noteq> CHR '' ''
         \<or> (s ! 20 \<noteq> CHR ''+'' \<and> s ! 20 \<noteq> CHR ''-'')
      then Inl (parse_error s fmt)
      else
        (case (field s 0 4, field s 5 2, field s 8 2, field s 11 2, field s 14 2,
               field s 17 2, field s 21 2, field s 23 2) of
           (Some y, Some m, Some d, Some hh, Some mm, Some ss, Some oh, Some om) \<Rightarrow>
             if 1 \<le> y \<and> 1 \<le> m \<and> m \<le> 12 \<and> 1 \<le> d \<and> d \<le> days_in_month y m
                \<and> hh \<le> 23 \<and> mm \<le> 59 \<and> ss \<le> 59 \<and> oh \<le> 23 \<and> om \<le> 59
             then Inr \<lparr>year = y, month = m, day = d, hour = hh, minute = mm, second = ss,
                       microsecond = 0,
                       utcoffset = (if s ! 20 = CHR ''-'' then - 1 else 1)
                                     * ((oh * 3600 + om * 60) * 1000000)\<rparr>
             else Inl (parse_error s fmt)
         | _ \<Rightarrow> Inl (parse_error s fmt)))"

text \<open>
  \<^verbatim>\<open>.date().strftime('%Y-%m-%d')\<close>: the local calendar date, the year in four digits
  and month and day in two. Python's years run from 1 to 9999.
\<close>

definition digit_char :: "int \<Rightarrow> char" where
  "digit_char n = ''0123456789'' ! nat n"

definition strftime_ymd :: "datetime \<Rightarrow> string" where
  "strftime_ymd dt =
     [digit_char (year dt div 1000 mod 10), digit_char (year dt div 100 mod 10),
      digit_char (year dt div 10 mod 10), digit_char (year dt mod 10), CHR ''-'',
      digit_char (month dt div 10 mod 10), digit_char (month dt mod 10), CHR ''-'',
      digit_char (day dt div 10 mod 10), digit_char (day dt mod 10)]"

section \<open>Elements and the streaming filter\<close>

text \<open>
  An \<^verbatim>\<open>lxml\<close> element is a mutable object: it lives at an address of a store, and the
  list that \<^verbatim>\<open>filter_elements\<close> returns holds references. An element carries its tag,
  its attributes in document order, its text and tail, and references to its children.
\<close>

type_synonym addr = nat

record element =
  tag :: string
  attrib :: "(string \<times> string) list"
  etext :: "string option"
  etail :: "string option"
  children :: "addr list"

type_synonym store = "addr \<Rightarrow> element"

text \<open>\<^verbatim>\<open>element.get(key)\<close>: the value or \<^verbatim>\<open>None\<close>.\<close>

definition element_get :: "element \<Rightarrow> string \<Rightarrow> string option" where
  "element_get element key = map_of (attrib element) key"

text \<open>\<^verbatim>\<open>element.attrib[key]\<close>: the value, or \<^verbatim>\<open>KeyError\<close>.\<close>

definition attrib_item :: "element \<Rightarrow> string \<Rightarrow> error + string" where
  "attrib_item element key =
     (case map_of (attrib element) key of None \<Rightarrow> Inl (KeyError key) | Some v \<Rightarrow> Inr v)"

text \<open>
  \<^verbatim>\<open>element.clear()\<close>: the attributes, text and tail go and the children are
  detached; the tag stays.
\<close>

definition clear :: "element \<Rightarrow> element" where
  "clear element = element\<lparr>attrib := [], etext := None, etail := None, children := []\<rparr>"

text \<open>
  The builtin \<^verbatim>\<open>float\<close> applied to the result of \<^verbatim>\<open>element.get\<close>. On
  \<^verbatim>\<open>None\<close> it raises \<^verbatim>\<open>TypeError\<close>; on a string it parses, which is library code
  and a parameter \<open>py_float\<close> here (it raises \<^verbatim>\<open>ValueError\<close> on a string that is no
  number).
\<close>

definition float_of_get :: "(string \<Rightarrow> error + real) \<Rightarrow> string option \<Rightarrow> error + real" where
  "float_of_get py_float x = (case x of None \<Rightarrow> Inl TypeError | Some s \<Rightarrow> py_float s)"

text \<open>
  \<^verbatim>\<open>example_filter\<close>. The walrus test \<^verbatim>\<open>if duration := float(...)\<close> is false for
  the float zero; both missing \<^verbatim>\<open>else\<close> branches return \<^verbatim>\<open>None\<close>.
\<close>

definition example_filter :: "(string \<Rightarrow> error + real) \<Rightarrow> element \<Rightarrow> error + pyval" where
  "example_filter py_float element =
     (if element_get element ''workoutActivityType'' = Some ''HKWorkoutActivityTypeRunning''
      then bind (float_of_get py_float (element_get element ''duration'')) (\<lambda>duration.
             if duration \<noteq> 0 then Inr (PBool (duration \<ge> 30)) else Inr PNone)
      else Inr PNone)"

text \<open>\<^verbatim>\<open>_filter_runs\<close> (nested in \<^verbatim>\<open>plot_speed_by_run\<close>).\<close>

definition filter_runs :: "element \<Rightarrow> error + pyval" where
  "filter_runs element =
     (if element_get element ''workoutActivityType'' = Some ''HKWorkoutActivityTypeRunning''
      then Inr (PBool True) else Inr PNone)"

text \<open>
  \<^verbatim>\<open>filter_elements\<close>. The document source is the store of the elements together with
  the order \<open>doc\<close> in which \<^verbatim>\<open>iterparse\<close> hands them out, each element once. A filter
  reads the element it is given: its tag and attributes, as the data model has it. The
  loop keeps the list \<open>results\<close> and the store; an exception of the filter ends it.
\<close>

fun filter_loop ::
  "(element \<Rightarrow> error + pyval) \<Rightarrow> addr list \<Rightarrow> addr list \<times> store \<Rightarrow> error + addr list \<times> store" where
  "filter_loop filt [] (results, store) = Inr (results, store)"
| "filter_loop filt (a # doc) (results, store) =
     (case filt (store a) of
        Inl e \<Rightarrow> Inl e
      | Inr v \<Rightarrow>
          if truthy v then filter_loop filt doc (results @ [a], store)
          else filter_loop filt doc (results, store(a := clear (store a))))"

definition filter_elements ::
  "(element \<Rightarrow> error + pyval) \<Rightarrow> store \<Rightarrow> addr list \<Rightarrow> error + addr list \<times> store" where
  "filter_elements filt store doc = filter_loop filt doc ([], store)"

text \<open>An element satisfies a filter when the filter returns a true value for it.\<close>

definition satisfies :: "(element \<Rightarrow> error + pyval) \<Rightarrow> element \<Rightarrow> bool" where
  "satisfies filt element = (case filt element of Inl e \<Rightarrow> False | Inr v \<Rightarrow> truthy v)"

definition returns :: "(element \<Rightarrow> error + pyval) \<Rightarrow> element \<Rightarrow> bool" where
  "returns filt element = (case filt element of Inl e \<Rightarrow> False | Inr v \<Rightarrow> True)"

section \<open>Speed by run\<close>

text \<open>The dictionary \<^verbatim>\<open>results\<close> with its two lists.\<close>

record results =
  date :: "string list"
  speed :: "real list"

text \<open>The three expressions of the loop body of \<^verbatim>\<open>plot_speed_by_run\<close>.\<close>

definition time_in_hours ::
  "(string \<Rightarrow> string \<Rightarrow> error + datetime) \<Rightarrow> element \<Rightarrow> error + real" where
  "time_in_hours strptime run =
     bind (attrib_item run ''startDate'') (\<lambda>s.
     bind (attrib_item run ''endDate'') (\<lambda>e.
       time_difference strptime s e ''hours''))"

definition date_key ::
  "(string \<Rightarrow> string \<Rightarrow> error + datetime) \<Rightarrow> element \<Rightarrow> error + string" where
  "date_key strptime run =
     bind (attrib_item run ''creationDate'') (\<lambda>c.
     bind (strptime c timestamp_format) (\<lambda>dt.
       Inr (strftime_ymd dt)))"

definition run_speed :: "(string \<Rightarrow> error + real) \<Rightarrow> element \<Rightarrow> real \<Rightarrow> error + real" where
  "run_speed py_float run hours =
     bind (attrib_item run ''totalDistance'') (\<lambda>s.
     bind (py_float s) (\<lambda>distance.
     bind (attrib_item run ''totalDistanceUnit'') (\<lambda>u.
       calculate_speed distance hours u ''hours'' [] [])))"

text \<open>
  \<^verbatim>\<open>not tracker.get(date_key)\<close>: true when the key is absent and when the stored
  number is zero.
\<close>

definition not_tracked :: "(string \<rightharpoonup> real) \<Rightarrow> string \<Rightarrow> bool" where
  "not_tracked tracker k = (case tracker k of None \<Rightarrow> True | Some v \<Rightarrow> v = 0)"

text \<open>One turn of the loop of lines 232 to 238 on the tracker and the results.\<close>

definition speed_step ::
  "(string \<Rightarrow> string \<Rightarrow> error + datetime) \<Rightarrow> (string \<Rightarrow> error + real) \<Rightarrow> element
     \<Rightarrow> (string \<rightharpoonup> real) \<times> results \<Rightarrow> error + (string \<rightharpoonup> real) \<times> results" where
  "speed_step strptime py_float run st =
     bind (time_in_hours strptime run) (\<lambda>t.
     bind (date_key strptime run) (\<lambda>k.
       if not_tracked (fst st) k
       then bind (run_speed py_float run t) (\<lambda>v.
              Inr ((fst st)(k \<mapsto> 1),
                   \<lparr>date = date (snd st) @ [k], speed = speed (snd st) @ [v]\<rparr>))
       else Inr st))"

fun speed_loop ::
  "(string \<Rightarrow> string \<Rightarrow> error + datetime) \<Rightarrow> (string \<Rightarrow> error + real) \<Rightarrow> element list
     \<Rightarrow> (string \<rightharpoonup> real) \<times> results \<Rightarrow> error + (string \<rightharpoonup> real) \<times> results" where
  "speed_loop strptime py_float [] st = Inr st"
| "speed_loop strptime py_float (run # runs) st =
     (case speed_step strptime py_float run st of
        Inl e \<Rightarrow> Inl e
      | Inr st' \<Rightarrow> speed_loop strptime py_float runs st')"

text \<open>Lines 225 to 238: the series built from the list \<open>runs\<close>.\<close>

definition speed_by_run ::
  "(string \<Rightarrow> string \<Rightarrow> error + datetime) \<Rightarrow> (string \<Rightarrow> error + real) \<Rightarrow> element list
     \<Rightarrow> error + results" where
  "speed_by_run strptime py_float runs =
     bind (speed_loop strptime py_float runs (Map.empty, \<lparr>date = [], speed = []\<rparr>))
       (\<lambda>st. Inr (snd st))"

text \<open>
  \<^verbatim>\<open>plot_speed_by_run\<close> up to the data frame: the runs are filtered out of the
  document and read back from the store.
\<close>

definition plot_speed_by_run ::
  "(string \<Rightarrow> string \<Rightarrow> error + datetime) \<Rightarrow> (string \<Rightarrow> error + real) \<Rightarrow> store \<Rightarrow> addr list
     \<Rightarrow> error + results" where
  "plot_speed_by_run strptime py_float store doc =
     bind (filter_elements filter_runs store doc) (\<lambda>(runs, store').
       speed_by_run strptime py_float (map store' runs))"

text \<open>
  The runs that are the first of their date: a run is kept when no earlier run of the
  list has its key.
\<close>

fun first_runs :: "('a \<Rightarrow> string) \<Rightarrow> string list \<Rightarrow> 'a list \<Rightarrow> 'a list" where
  "first_runs K seen [] = []"
| "first_runs K seen (r # rs) =
     (if K r \<in> set seen then first_runs K seen rs else r # first_runs K (K r # seen) rs)"

text \<open>
  The store after the scan, in closed form: the elements of the document that do not
  satisfy the filter are cleared and every other element is as it was.
\<close>

definition swept :: "(element \<Rightarrow> error + pyval) \<Rightarrow> store \<Rightarrow> addr list \<Rightarrow> store" where
  "swept filt store doc =
     (\<lambda>a. if a \<in> set doc \<and> \<not> satisfies filt (store a) then clear (store a) else store a)"

text \<open>The units of \<^verbatim>\<open>time_difference\<close>, as its docstring lists them.\<close>

definition difference_units :: "string set" where
  "difference_units = {''seconds'', ''minutes'', ''hours'', ''days'', ''weeks'', ''years''}"

section \<open>A small export\<close>

text \<open>
  Concrete data on which the functions are run: a parser of floats that knows two
  numerals, and a document with three running workouts, two of them created on the same
  day, and a heart-rate record between them.
\<close>

definition example_float :: "string \<Rightarrow> error + real" where
  "example_float s =
     (if s = ''5.0'' then Inr 5 else if s = ''3.0'' then Inr 3
      else Inl (ValueError (''could not convert string to float: '' @ s)))"

definition workout :: "string \<Rightarrow> string \<Rightarrow> string \<Rightarrow> string \<Rightarrow> string \<Rightarrow> element" where
  "workout created started ended distance unit =
     \<lparr>tag = ''Workout'',
      attrib = [(''workoutActivityType'', ''HKWorkoutActivityTypeRunning''),
                (''totalDistance'', distance), (''totalDistanceUnit'', unit),
                (''creationDate'', created), (''startDate'', started), (''endDate'', ended)],
      etext = None, etail = None, children = []\<rparr>"

definition morning_run :: element where
  "morning_run = workout ''2021-10-05 07:31:00 -0500'' ''2021-10-05 07:00:00 -0500''
                   ''2021-10-05 07:30:00 -0500'' ''5.0'' ''km''"

definition evening_run :: element where
  "evening_run = workout ''2021-10-05 19:01:00 -0500'' ''2021-10-05 18:00:00 -0500''
                   ''2021-10-05 19:00:00 -0500'' ''n/a'' ''km''"

definition next_day_run :: element where
  "next_day_run = workout ''2021-10-06 06:46:00 -0500'' ''2021-10-06 06:00:00 -0500''
                    ''2021-10-06 06:45:00 -0500'' ''3.0'' ''mi''"

definition heart_rate :: element where
  "heart_rate = \<lparr>tag = ''Record'', attrib = [(''type'', ''HKQuantityTypeIdentifierHeartRate'')],
                  etext = None, etail = None, children = []\<rparr>"

definition example_store :: store where
  "example_store =
     (\<lambda>a. \<lparr>tag = ''HealthData'', attrib = [], etext = None, etail = None,
            children = [0, 1, 2, 3]\<rparr>)
       (0 := morning_run, 1 := heart_rate, 2 := evening_run, 3 := next_day_run)"

text \<open>A running workout that has no \<^verbatim>\<open>duration\<close> attribute.\<close>

definition run_without_duration :: element where
  "run_without_duration =
     \<lparr>tag = ''Workout'',
      attrib = [(''workoutActivityType'', ''HKWorkoutActivityTypeRunning'')],
      etext = None, etail = None, children = []\<rparr>"

section \<open>The doctests and the tests of the module\<close>

lemmas timestamp_simps =
  time_difference_def bind_def strptime_wire_def field_def digit_def days_in_month_def
  is_leap_def datetime_sub_def local_microseconds_def toordinal_def days_before_year_def
  days_before_month_def total_seconds_def upt_conv_Cons timestamp_format_def parse_error_def

lemmas speed_simps =
  calculate_speed_def calculate_speed_run_def convert_distance_def convert_time_def
  py_truediv_def Let_def

lemma doctest_speed_default: "calculate_speed 5 1 ''km'' ''hours'' [] [] = Inr 5"
  by (simp add: speed_simps)

lemma doctest_speed_bad_output:
  "calculate_speed 5 0.55 ''km'' ''hours'' ''m'' [] = Inl (ValueError output_unit_message)"
  by (simp add: speed_simps)

lemma test_speed_miles:
  "calculate_speed 5 0.45 ''km'' ''hours'' ''mi'' [] = Inr (5 * 0.621371 / 0.45)"
  by (simp add: speed_simps)

lemma doctest_difference_year:
  "time_difference strptime_wire ''1900-01-01 00:00:00 -0500'' ''1901-01-01 00:00:00 -0500''
     ''hours'' = Inr 8760"
  by (simp add: timestamp_simps)

lemma doctest_difference_offset:
  "time_difference strptime_wire ''1900-01-01 00:00:00 -0500'' ''1901-01-01 00:00:00 -0400''
     ''hours'' = Inr 8759"
  by (simp add: timestamp_simps)

lemma test_difference_minutes:
  "time_difference strptime_wire ''1900-01-01 00:00:00 -0500'' ''1901-01-01 00:06:00 -0500''
     ''hours'' = Inr 8760.1"
  by (simp add: timestamp_simps)

section \<open>The streaming filter\<close>

lemma filter_loop_general:
  "distinct doc \<Longrightarrow> \<forall>a \<in> set doc. returns filt (store a) \<Longrightarrow>
   filter_loop filt doc (acc, store) =
     Inr (acc @ filter (\<lambda>a. satisfies filt (store a)) doc, swept filt store doc)"
proof (induction doc arbitrary: acc store)
  case Nil
  then show ?case by (simp add: swept_def)
next
  case (Cons a doc)
  from Cons.prems obtain v where v: "filt (store a) = Inr v"
    by (auto simp: returns_def split: sum.splits)
  have nin: "a \<notin> set doc" and dis: "distinct doc" using Cons.prems by auto
  show ?case
  proof (cases "truthy v")
    case True
    have ret: "\<forall>b \<in> set doc. returns filt (store b)" using Cons.prems by simp
    have sat: "satisfies filt (store a)" using v True by (simp add: satisfies_def)
    have sw: "swept filt store (a # doc) = swept filt store doc"
      using sat by (auto simp: swept_def fun_eq_iff)
    have "filter_loop filt (a # doc) (acc, store) = filter_loop filt doc (acc @ [a], store)"
      using v True by simp
    also have "\<dots> = Inr ((acc @ [a]) @ filter (\<lambda>b. satisfies filt (store b)) doc,
                          swept filt store doc)"
      by (rule Cons.IH[OF dis ret])
    also have "\<dots> = Inr (acc @ filter (\<lambda>b. satisfies filt (store b)) (a # doc),
                          swept filt store (a # doc))"
      unfolding sw using sat by simp
    finally show ?thesis .
  next
    case False
    let ?s = "store(a := clear (store a))"
    have same: "\<forall>b \<in> set doc. ?s b = store b" using nin by auto
    have ret: "\<forall>b \<in> set doc. returns filt (?s b)" using Cons.prems same by simp
    have sat: "\<not> satisfies filt (store a)" using v False by (simp add: satisfies_def)
    have fl: "filter (\<lambda>b. satisfies filt (?s b)) doc = filter (\<lambda>b. satisfies filt (store b)) doc"
      using same by (intro filter_cong) auto
    have sw: "swept filt ?s doc = swept filt store (a # doc)"
      using sat nin by (auto simp: swept_def fun_eq_iff)
    have "filter_loop filt (a # doc) (acc, store) = filter_loop filt doc (acc, ?s)"
      using v False by simp
    also have "\<dots> = Inr (acc @ filter (\<lambda>b. satisfies filt (?s b)) doc, swept filt ?s doc)"
      by (rule Cons.IH[OF dis ret])
    also have "\<dots> = Inr (acc @ filter (\<lambda>b. satisfies filt (store b)) (a # doc),
                          swept filt store (a # doc))"
      unfolding fl sw using sat by simp
    finally show ?thesis .
  qed
qed

lemma filter_loop_raises:
  "a \<in> set doc \<Longrightarrow> \<not> returns filt (store a) \<Longrightarrow> distinct doc \<Longrightarrow> \<exists>e. filter_loop filt doc (acc, store) = Inl e"
proof (induction doc arbitrary: acc store)
  case Nil then show ?case by simp
next
  case (Cons b doc)
  show ?case
  proof (cases "filt (store b)")
    case (Inl e) then show ?thesis by simp
  next
    case (Inr v)
    then have "a \<noteq> b" using Cons.prems by (auto simp: returns_def)
    then have ain: "a \<in> set doc" using Cons.prems by simp
    have dis: "distinct doc" and nin: "b \<notin> set doc" using Cons.prems by auto
    let ?s = "store(b := clear (store b))"
    have nr: "\<not> returns filt (?s a)" using Cons.prems \<open>a \<noteq> b\<close> by simp
    have 1: "\<exists>e. filter_loop filt doc (acc, ?s) = Inl e"
      using ain nr dis by (rule Cons.IH[where store = "?s"])
    have 2: "\<exists>e. filter_loop filt doc (acc @ [b], store) = Inl e"
      using ain Cons.prems(2) dis by (rule Cons.IH[where store = store])
    show ?thesis
    proof (cases "truthy v")
      case True
      then have "filter_loop filt (b # doc) (acc, store) = filter_loop filt doc (acc @ [b], store)"
        using Inr by simp
      then show ?thesis using 2 by simp
    next
      case False
      then have "filter_loop filt (b # doc) (acc, store) = filter_loop filt doc (acc, ?s)"
        using Inr by simp
      then show ?thesis using 1 by simp
    qed
  qed
qed

text \<open>An exception of the filter on any element of the document ends the scan.\<close>

text \<open>
  Claim C1. Let the document hand out each element once and let the filter return a
  value on each of them. Then \<^verbatim>\<open>filter_elements\<close> returns the elements that satisfy
  the filter, all of them and no other, in the order of the document, so as many as
  satisfy it. An element of the document on which the filter returns a value that is not
  true is cleared and is not in the list; the elements in the list are untouched.
\<close>

theorem filter_elements_keeps_matches:
  assumes "distinct doc" and "\<forall>a \<in> set doc. returns filt (store a)"
  shows "\<exists>res store'. filter_elements filt store doc = Inr (res, store')
     \<and> res = filter (\<lambda>a. satisfies filt (store a)) doc
     \<and> length res = card {a \<in> set doc. satisfies filt (store a)}
     \<and> (\<forall>a \<in> set doc. \<not> satisfies filt (store a) \<longrightarrow> a \<notin> set res \<and> store' a = clear (store a))
     \<and> (\<forall>a \<in> set res. store' a = store a)"
proof -
  have "filter_elements filt store doc =
      Inr (filter (\<lambda>a. satisfies filt (store a)) doc, swept filt store doc)"
    using filter_loop_general[OF assms, of "[]"] by (simp add: filter_elements_def)
  moreover have "length (filter (\<lambda>a. satisfies filt (store a)) doc) = card {a \<in> set doc. satisfies filt (store a)}"
    using assms(1) by (simp add: distinct_length_filter Int_def conj_commute)
  ultimately show ?thesis by (simp add: swept_def)
qed

theorem filter_elements_keeps_matches_witness:
  "\<exists>store'. filter_elements filter_runs example_store [0, 1, 2, 3] = Inr ([0, 2, 3], store')
      \<and> store' 1 = clear heart_rate \<and> store' 0 = morning_run"
proof -
  have d: "distinct [0, 1, 2, 3 :: nat]" by simp
  have r: "\<forall>a \<in> set [0, 1, 2, 3]. returns filter_runs (example_store a)"
    by (simp add: returns_def filter_runs_def)
  have f: "filter (\<lambda>a. satisfies filter_runs (example_store a)) [0, 1, 2, 3] = [0, 2, 3]"
    by (simp add: satisfies_def filter_runs_def element_get_def example_store_def
        morning_run_def evening_run_def next_day_run_def heart_rate_def workout_def)
  have h: "\<not> satisfies filter_runs (example_store 1)"
    by (simp add: satisfies_def filter_runs_def element_get_def example_store_def
        heart_rate_def)
  have s0: "example_store 0 = morning_run" by (simp add: example_store_def)
  have s1: "example_store 1 = heart_rate" by (simp add: example_store_def)
  from filter_elements_keeps_matches [OF d r] obtain res store' where
    eq: "filter_elements filter_runs example_store [0, 1, 2, 3] = Inr (res, store')"
    and res: "res = filter (\<lambda>a. satisfies filter_runs (example_store a)) [0, 1, 2, 3]"
    and cl: "\<forall>a \<in> set [0, 1, 2, 3]. \<not> satisfies filter_runs (example_store a) \<longrightarrow>
               a \<notin> set res \<and> store' a = clear (example_store a)"
    and keep: "\<forall>a \<in> set res. store' a = example_store a"
    by blast
  have r3: "res = [0, 2, 3]" using res f by simp
  have c1: "store' 1 = clear heart_rate" using cl h s1 by simp
  have k0: "store' 0 = morning_run" using keep r3 s0 by simp
  from eq r3 c1 k0 show ?thesis by blast
qed

section \<open>Speed by run: the first run of a date wins\<close>

lemma first_runs_keys_fresh: "r \<in> set (first_runs K seen rs) \<Longrightarrow> K r \<notin> set seen"
proof (induction rs arbitrary: seen)
  case Nil then show ?case by simp
next
  case (Cons a rs)
  show ?case
  proof (cases "K a \<in> set seen")
    case True
    with Cons.prems have "r \<in> set (first_runs K seen rs)" by simp
    then show ?thesis by (rule Cons.IH)
  next
    case False
    with Cons.prems have "r = a \<or> r \<in> set (first_runs K (K a # seen) rs)" by simp
    then show ?thesis
    proof
      assume "r = a" with False show ?thesis by simp
    next
      assume "r \<in> set (first_runs K (K a # seen) rs)"
      then have "K r \<notin> set (K a # seen)" by (rule Cons.IH)
      then show ?thesis by simp
    qed
  qed
qed

lemma first_runs_subset: "set (first_runs K seen rs) \<subseteq> set rs"
  by (induction rs arbitrary: seen) (auto split: if_splits)

lemma first_runs_distinct: "distinct (map K (first_runs K seen rs))"
  by (induction rs arbitrary: seen) (auto dest: first_runs_keys_fresh)

lemma first_runs_keys: "set (map K (first_runs K seen rs)) = K ` set rs - set seen"
  by (induction rs arbitrary: seen) auto

lemma first_runs_find:
  "r \<in> set (first_runs K seen rs) \<Longrightarrow> find (\<lambda>x. K x = K r) rs = Some r"
proof (induction rs arbitrary: seen)
  case Nil then show ?case by simp
next
  case (Cons r0 rs)
  show ?case
  proof (cases "K r0 \<in> set seen")
    case True
    with Cons.prems have rin: "r \<in> set (first_runs K seen rs)" by simp
    then have "K r \<notin> set seen" by (rule first_runs_keys_fresh)
    with True have "K r0 \<noteq> K r" by auto
    with Cons.IH[OF rin] show ?thesis by simp
  next
    case False
    show ?thesis
    proof (cases "r = r0")
      case True then show ?thesis by simp
    next
      case ne: False
      with False Cons.prems have rin: "r \<in> set (first_runs K (K r0 # seen) rs)" by simp
      then have "K r \<notin> set (K r0 # seen)" by (rule first_runs_keys_fresh)
      then have "K r0 \<noteq> K r" by auto
      with Cons.IH[OF rin] show ?thesis by simp
    qed
  qed
qed

lemma remdups_snoc: "remdups (ys @ [x]) = removeAll x (remdups ys) @ [x]"
  by (induction ys) auto

lemma first_runs_remdups:
  "map K (first_runs K seen rs) = filter (\<lambda>k. k \<notin> set seen) (rev (remdups (rev (map K rs))))"
proof (induction rs arbitrary: seen)
  case Nil then show ?case by simp
next
  case (Cons r rs)
  let ?F = "rev (remdups (rev (map K rs)))"
  have unfold: "rev (remdups (rev (map K (r # rs)))) = K r # filter (\<lambda>k. k \<noteq> K r) ?F"
    by (simp add: remdups_snoc removeAll_filter_not_eq rev_filter eq_commute)
  show ?case
  proof (cases "K r \<in> set seen")
    case True
    have "filter (\<lambda>k. k \<notin> set seen) (filter (\<lambda>k. k \<noteq> K r) ?F) = filter (\<lambda>k. k \<notin> set seen) ?F"
      using True by (auto intro: filter_cong)
    with True Cons.IH[of seen] show ?thesis unfolding unfold by simp
  next
    case False
    have "filter (\<lambda>k. k \<notin> set seen) (filter (\<lambda>k. k \<noteq> K r) ?F) = filter (\<lambda>k. k \<notin> set (K r # seen)) ?F"
      by (auto intro: filter_cong)
    with False Cons.IH[of "K r # seen"] show ?thesis unfolding unfold by simp
  qed
qed

lemma speed_loop_general:
  assumes "\<forall>r \<in> set runs. time_in_hours sp r = Inr (T r) \<and> date_key sp r = Inr (K r)"
    and "\<forall>r \<in> set (first_runs K seen runs). run_speed pf r (T r) = Inr (V r)"
    and "\<forall>k. tracker k = (if k \<in> set seen then Some 1 else None)"
  shows "\<exists>tracker'. speed_loop sp pf runs (tracker, res) =
     Inr (tracker', \<lparr>date = date res @ map K (first_runs K seen runs),
                     speed = speed res @ map V (first_runs K seen runs)\<rparr>)"
  using assms
proof (induction runs arbitrary: seen tracker res)
  case Nil
  then show ?case by simp
next
  case (Cons r runs)
  have t: "time_in_hours sp r = Inr (T r)" and k: "date_key sp r = Inr (K r)"
    using Cons.prems(1) by auto
  have rest: "\<forall>r \<in> set runs. time_in_hours sp r = Inr (T r) \<and> date_key sp r = Inr (K r)"
    using Cons.prems(1) by auto
  show ?case
  proof (cases "K r \<in> set seen")
    case True
    then have nt: "\<not> not_tracked tracker (K r)"
      using Cons.prems(3) by (simp add: not_tracked_def)
    have step: "speed_step sp pf r (tracker, res) = Inr (tracker, res)"
      using t k nt by (simp add: speed_step_def bind_def)
    have sp2: "\<forall>r \<in> set (first_runs K seen runs). run_speed pf r (T r) = Inr (V r)"
      using Cons.prems(2) True by simp
    have loop: "speed_loop sp pf (r # runs) (tracker, res) = speed_loop sp pf runs (tracker, res)"
      unfolding speed_loop.simps step by simp
    have fr: "first_runs K seen (r # runs) = first_runs K seen runs"
      using True by simp
    show ?thesis unfolding loop fr
      using rest sp2 Cons.prems(3) by (rule Cons.IH[where tracker = tracker])
  next
    case False
    then have nt: "not_tracked tracker (K r)"
      using Cons.prems(3) by (simp add: not_tracked_def)
    have v: "run_speed pf r (T r) = Inr (V r)" using Cons.prems(2) False by simp
    let ?tr = "tracker(K r \<mapsto> 1)"
    let ?res = "\<lparr>date = date res @ [K r], speed = speed res @ [V r]\<rparr>"
    have step: "speed_step sp pf r (tracker, res) = Inr (?tr, ?res)"
      using t k nt v by (simp add: speed_step_def bind_def)
    have sp2: "\<forall>r \<in> set (first_runs K (K r # seen) runs). run_speed pf r (T r) = Inr (V r)"
      using Cons.prems(2) False by simp
    have inv: "\<forall>k. ?tr k = (if k \<in> set (K r # seen) then Some 1 else None)"
      using Cons.prems(3) by auto
    have loop: "speed_loop sp pf (r # runs) (tracker, res) = speed_loop sp pf runs (?tr, ?res)"
      unfolding speed_loop.simps step by simp
    have fr: "first_runs K seen (r # runs) = r # first_runs K (K r # seen) runs"
      using False by simp
    have "\<exists>tracker'. speed_loop sp pf runs (?tr, ?res) =
            Inr (tracker', \<lparr>date = date ?res @ map K (first_runs K (K r # seen) runs),
                            speed = speed ?res @ map V (first_runs K (K r # seen) runs)\<rparr>)"
      using rest sp2 inv by (rule Cons.IH[where tracker = "?tr"])
    then obtain tr' where "speed_loop sp pf runs (?tr, ?res) =
            Inr (tr', \<lparr>date = date ?res @ map K (first_runs K (K r # seen) runs),
                       speed = speed ?res @ map V (first_runs K (K r # seen) runs)\<rparr>)" ..
    then have "speed_loop sp pf (r # runs) (tracker, res) =
            Inr (tr', \<lparr>date = date res @ map K (first_runs K seen (r # runs)),
                       speed = speed res @ map V (first_runs K seen (r # runs))\<rparr>)"
      unfolding loop fr by simp
    then show ?thesis by blast
  qed
qed

text \<open>
  Claim C2. Let every run of the list have a start, an end and a creation timestamp that
  parse, with \<open>T\<close> its time in hours and \<open>K\<close> its date key, and let the speed \<open>V\<close> of
  every run that is the first of its date be computable. Then the loop returns one
  record per distinct date: the dates are pairwise distinct and are exactly the dates of
  the runs, each record comes from the first run of the list that has its date, and the
  records stand in the order in which the dates first appear.
\<close>

theorem speed_by_run_first_wins:
  assumes "\<forall>r \<in> set runs. time_in_hours sp r = Inr (T r) \<and> date_key sp r = Inr (K r)"
    and "\<forall>r \<in> set (first_runs K [] runs). run_speed pf r (T r) = Inr (V r)"
  shows "speed_by_run sp pf runs =
           Inr \<lparr>date = map K (first_runs K [] runs), speed = map V (first_runs K [] runs)\<rparr>
       \<and> distinct (map K (first_runs K [] runs))
       \<and> set (map K (first_runs K [] runs)) = K ` set runs
       \<and> (\<forall>r \<in> set (first_runs K [] runs). find (\<lambda>x. K x = K r) runs = Some r)
       \<and> map K (first_runs K [] runs) = rev (remdups (rev (map K runs)))"
proof -
  have "\<forall>k. (Map.empty :: string \<rightharpoonup> real) k = (if k \<in> set [] then Some 1 else None)" by simp
  from speed_loop_general[OF assms this, of "\<lparr>date = [], speed = []\<rparr>"]
  have "speed_by_run sp pf runs =
           Inr \<lparr>date = map K (first_runs K [] runs), speed = map V (first_runs K [] runs)\<rparr>"
    by (auto simp: speed_by_run_def bind_def)
  moreover have "map K (first_runs K [] runs) = rev (remdups (rev (map K runs)))"
    using first_runs_remdups[of K "[]" runs] by simp
  moreover have "set (map K (first_runs K [] runs)) = K ` set runs"
    using first_runs_keys[of K "[]" runs] by simp
  ultimately show ?thesis
    using first_runs_distinct[of K "[]" runs] first_runs_find[of _ K "[]" runs] by blast
qed

theorem speed_by_run_first_wins_witness:
  "speed_by_run strptime_wire example_float [morning_run, evening_run, next_day_run] =
     Inr \<lparr>date = [''2021-10-05'', ''2021-10-06''], speed = [10, 4]\<rparr>"
proof -
  let ?runs = "[morning_run, evening_run, next_day_run]"
  define T where "T = (\<lambda>r. case time_in_hours strptime_wire r of Inr t \<Rightarrow> t | Inl e \<Rightarrow> 0)"
  define K where "K = (\<lambda>r. case date_key strptime_wire r of Inr k \<Rightarrow> k | Inl e \<Rightarrow> [])"
  define V where "V = (\<lambda>r. case run_speed example_float r (T r) of Inr v \<Rightarrow> v | Inl e \<Rightarrow> 0)"
  have tm: "time_in_hours strptime_wire morning_run = Inr (1 / 2)"
    by (simp add: morning_run_def workout_def time_in_hours_def attrib_item_def timestamp_simps)
  have te: "time_in_hours strptime_wire evening_run = Inr 1"
    by (simp add: evening_run_def workout_def time_in_hours_def attrib_item_def timestamp_simps)
  have tn: "time_in_hours strptime_wire next_day_run = Inr (3 / 4)"
    by (simp add: next_day_run_def workout_def time_in_hours_def attrib_item_def timestamp_simps)
  have km: "date_key strptime_wire morning_run = Inr ''2021-10-05''"
    by (simp add: morning_run_def workout_def date_key_def attrib_item_def timestamp_simps
        strftime_ymd_def digit_char_def)
  have ke: "date_key strptime_wire evening_run = Inr ''2021-10-05''"
    by (simp add: evening_run_def workout_def date_key_def attrib_item_def timestamp_simps
        strftime_ymd_def digit_char_def)
  have kn: "date_key strptime_wire next_day_run = Inr ''2021-10-06''"
    by (simp add: next_day_run_def workout_def date_key_def attrib_item_def timestamp_simps
        strftime_ymd_def digit_char_def)
  have vm: "run_speed example_float morning_run (1 / 2) = Inr 10"
    by (simp add: morning_run_def workout_def run_speed_def attrib_item_def bind_def
        example_float_def speed_simps)
  have vn: "run_speed example_float next_day_run (3 / 4) = Inr 4"
    by (simp add: next_day_run_def workout_def run_speed_def attrib_item_def bind_def
        example_float_def speed_simps)
  have h1: "\<forall>r \<in> set ?runs. time_in_hours strptime_wire r = Inr (T r)
              \<and> date_key strptime_wire r = Inr (K r)"
    by (simp add: T_def K_def tm te tn km ke kn)
  have fr: "first_runs K [] ?runs = [morning_run, next_day_run]"
    by (simp add: K_def km ke kn)
  have h2: "\<forall>r \<in> set (first_runs K [] ?runs). run_speed example_float r (T r) = Inr (V r)"
    unfolding fr by (simp add: T_def V_def tm tn vm vn)
  from speed_by_run_first_wins [OF h1 h2] show ?thesis
    unfolding fr by (simp add: K_def V_def T_def tm tn km kn vm vn)
qed

section \<open>Unit conversion\<close>




text \<open>
  Claim C7. With a source unit among \<^verbatim>\<open>km\<close> and \<^verbatim>\<open>mi\<close> and a target unit outside,
  \<^verbatim>\<open>_convert_distance\<close> raises the error that the output unit must be one of the two;
  with a source unit outside it raises the error of an invalid distance unit, whatever
  the target, and the two messages differ. Equal supported units return the value
  unchanged, kilometres to miles multiplies by 0.621371 and miles to kilometres by
  1.60934.
\<close>

theorem convert_distance_validation:
  "(fromUnit \<in> distance_units \<and> toUnit \<notin> distance_units \<longrightarrow>
      convert_distance v fromUnit toUnit = Inl (ValueError output_unit_message))
   \<and> (fromUnit \<notin> distance_units \<longrightarrow>
      convert_distance v fromUnit toUnit =
        Inl (ValueError (''Invalid distance unit: '' @ fromUnit)))
   \<and> output_unit_message \<noteq> ''Invalid distance unit: '' @ fromUnit
   \<and> (fromUnit \<in> distance_units \<and> toUnit = fromUnit \<longrightarrow>
      convert_distance v fromUnit toUnit = Inr v)
   \<and> (fromUnit = ''km'' \<and> toUnit = ''mi'' \<longrightarrow>
      convert_distance v fromUnit toUnit = Inr (v * 0.621371))
   \<and> (fromUnit = ''mi'' \<and> toUnit = ''km'' \<longrightarrow>
      convert_distance v fromUnit toUnit = Inr (v * 1.60934))"
  by (auto simp add: convert_distance_def distance_units_def output_unit_message_def)

theorem convert_distance_validation_witness:
  "convert_distance 5 ''km'' ''m'' = Inl (ValueError output_unit_message)
   \<and> convert_distance 5 ''m'' ''km'' = Inl (ValueError ''Invalid distance unit: m'')
   \<and> convert_distance 5 ''mi'' ''mi'' = Inr 5
   \<and> convert_distance 5 ''km'' ''mi'' = Inr 3.106855
   \<and> convert_distance 5 ''mi'' ''km'' = Inr 8.0467"
  using convert_distance_validation [of "''km''" "''m''" 5]
    convert_distance_validation [of "''m''" "''km''" 5]
    convert_distance_validation [of "''mi''" "''mi''" 5]
    convert_distance_validation [of "''km''" "''mi''" 5]
    convert_distance_validation [of "''mi''" "''km''" 5]
  by (simp add: distance_units_def)

lemma fl_convert_distance_exact: "fl_convert_distance (\<lambda>x. x) = convert_distance"
  by (simp add: fun_eq_iff fl_convert_distance_def convert_distance_def)

lemma four_le_power: "2 \<le> n \<Longrightarrow> (4 :: real) \<le> 2 ^ n"
proof -
  assume n: "2 \<le> n"
  have "(4 :: real) = 2 ^ 2" by simp
  also have "\<dots> \<le> 2 ^ n" using n by (intro power_increasing) simp_all
  finally show ?thesis .
qed

lemma min_normal_bounds: "0 < min_normal" "min_normal \<le> 1 / 4"
proof -
  have p: "(4 :: real) \<le> 2 ^ 1022" by (rule four_le_power) simp
  show "0 < min_normal" unfolding min_normal_def by (intro divide_pos_pos zero_less_power) simp_all
  show "min_normal \<le> 1 / 4" unfolding min_normal_def using p by (intro divide_left_mono) simp_all
qed

lemma max_double_bound: "4 \<le> max_double"
proof -
  have p: "(4 :: real) \<le> 2 ^ 1023" by (rule four_le_power) simp
  have "(1 :: real) / 2 ^ 52 \<le> 1" by simp
  then have q: "(1 :: real) \<le> 2 - 1 / 2 ^ 52" by linarith
  have "1 * 4 \<le> (2 - 1 / 2 ^ 52) * (2 :: real) ^ 1023"
    using q p by (rule mult_mono) simp_all
  then show ?thesis unfolding max_double_def by (simp only: mult_1)
qed

lemma unit_roundoff: "(1 :: real) / 2 ^ 53 \<le> 1 / 10 ^ 15"
  by simp

lemma rounding_factor:
  assumes "double_rounding rnd" and "min_normal \<le> \<bar>x\<bar>" and "\<bar>x\<bar> \<le> max_double"
  shows "\<exists>f. rnd x = x * f \<and> \<bar>f - 1\<bar> \<le> 1 / 10 ^ 15"
proof -
  have x0: "x \<noteq> 0" using assms(2) min_normal_bounds(1) by auto
  have "\<bar>rnd x - x\<bar> \<le> \<bar>x\<bar> / 2 ^ 53"
    using assms unfolding double_rounding_def by blast
  also have "\<dots> = \<bar>x\<bar> * (1 / 2 ^ 53)" by (rule divide_inverse [unfolded inverse_eq_divide])
  also have "\<dots> \<le> \<bar>x\<bar> * (1 / 10 ^ 15)"
    using unit_roundoff by (rule mult_left_mono) simp
  finally have b: "\<bar>rnd x - x\<bar> \<le> \<bar>x\<bar> * (1 / 10 ^ 15)" .
  define f where "f = rnd x / x"
  have 1: "rnd x = x * f" using x0 by (simp add: f_def)
  have "f - 1 = (rnd x - x) / x" using x0 by (simp add: f_def diff_divide_distrib)
  then have "\<bar>f - 1\<bar> = \<bar>rnd x - x\<bar> / \<bar>x\<bar>" by (simp only: abs_divide)
  also have "\<dots> \<le> (\<bar>x\<bar> * (1 / 10 ^ 15)) / \<bar>x\<bar>"
    using b by (rule divide_right_mono) simp
  also have "\<dots> = 1 / 10 ^ 15" using x0 by simp
  finally have 2: "\<bar>f - 1\<bar> \<le> 1 / 10 ^ 15" .
  from 1 2 show ?thesis by blast
qed

lemma factor_step:
  fixes g f a e :: real
  assumes "\<bar>g - 1\<bar> \<le> a" and "a \<le> 1" and "\<bar>f - 1\<bar> \<le> e" and "0 \<le> e"
  shows "\<bar>g * f - 1\<bar> \<le> a + 2 * e"
proof -
  have "g * f - 1 = (g - 1) + g * (f - 1)" by (simp add: algebra_simps)
  then have "\<bar>g * f - 1\<bar> \<le> \<bar>g - 1\<bar> + \<bar>g\<bar> * \<bar>f - 1\<bar>"
    by (metis abs_mult abs_triangle_ineq)
  moreover have "\<bar>g\<bar> \<le> 2" using assms(1,2) by linarith
  then have "\<bar>g\<bar> * \<bar>f - 1\<bar> \<le> 2 * e"
    using assms(3,4) by (intro mult_mono) simp_all
  ultimately show ?thesis using assms(1) by linarith
qed

lemma in_range:
  assumes "4 * min_normal \<le> \<bar>d\<bar>" and "\<bar>d\<bar> \<le> max_double / 4" and "1 / 4 \<le> k" and "k \<le> 4"
  shows "min_normal \<le> \<bar>d * k\<bar> \<and> \<bar>d * k\<bar> \<le> max_double"
proof -
  have k0: "0 \<le> k" using assms(3) by linarith
  have e: "\<bar>d * k\<bar> = \<bar>d\<bar> * k" using k0 by (simp add: abs_mult)
  have "\<bar>d\<bar> * (1 / 4) \<le> \<bar>d\<bar> * k" using assms(3) by (intro mult_left_mono) simp_all
  moreover have "\<bar>d\<bar> * k \<le> \<bar>d\<bar> * 4" using assms(4) by (intro mult_left_mono) simp_all
  ultimately show ?thesis using assms(1,2) e by linarith
qed

lemma product_bounds:
  fixes c g :: real
  assumes "1 / 2 \<le> c" and "c \<le> 2" and "\<bar>g - 1\<bar> \<le> 1 / 2"
  shows "1 / 4 \<le> c * g \<and> c * g \<le> 4"
proof -
  have g: "1 / 2 \<le> g" "g \<le> 2" using assms(3) by linarith+
  have "(1 / 2) * (1 / 2) \<le> c * g" using assms(1) g(1) by (intro mult_mono) simp_all
  moreover have "c * g \<le> 2 * 2" using assms g by (intro mult_mono) simp_all
  ultimately show ?thesis by simp
qed

lemma factor_close:
  fixes G :: real
  assumes "\<bar>G - 1\<bar> \<le> 7 / 10 ^ 15"
  shows "\<bar>0.99999720514 * G - 1\<bar> \<le> 0.000003"
proof -
  have e: "(7 :: real) / 10 ^ 15 \<le> 1 / 10000000" by simp
  have "\<bar>G - 1\<bar> \<le> 1 / 10000000" using assms e by (rule order_trans)
  then have "\<bar>99999720514 / 100000000000 * G - 1\<bar> \<le> 3 / 1000000" by linarith
  then show ?thesis by simp
qed

lemma fl_product_close:
  assumes R: "double_rounding rnd"
    and c1: "1 / 2 \<le> c1" "c1 \<le> 2" and c2: "1 / 2 \<le> c2" "c2 \<le> 2"
    and P: "c1 * c2 = 0.99999720514"
    and lo: "4 * min_normal \<le> \<bar>d\<bar>" and hi: "\<bar>d\<bar> \<le> max_double / 4"
  shows "\<bar>rnd (rnd (d * rnd c1) * rnd c2) - d\<bar> \<le> 0.000003 * \<bar>d\<bar>"
proof -
  have rc1: "min_normal \<le> \<bar>c1\<bar>" "\<bar>c1\<bar> \<le> max_double"
    using c1 min_normal_bounds max_double_bound by linarith+
  have rc2: "min_normal \<le> \<bar>c2\<bar>" "\<bar>c2\<bar> \<le> max_double"
    using c2 min_normal_bounds max_double_bound by linarith+
  obtain f1 where a: "rnd c1 = c1 * f1" and f1: "\<bar>f1 - 1\<bar> \<le> 1 / 10 ^ 15"
    using rounding_factor [OF R rc1] by blast
  obtain f3 where b: "rnd c2 = c2 * f3" and f3: "\<bar>f3 - 1\<bar> \<le> 1 / 10 ^ 15"
    using rounding_factor [OF R rc2] by blast
  have k1: "1 / 4 \<le> c1 * f1 \<and> c1 * f1 \<le> 4"
    using c1 f1 by (intro product_bounds) simp_all
  have rp: "min_normal \<le> \<bar>d * (c1 * f1)\<bar> \<and> \<bar>d * (c1 * f1)\<bar> \<le> max_double"
    using lo hi k1 by (intro in_range) simp_all
  obtain f2 where q: "rnd (d * (c1 * f1)) = d * (c1 * f1) * f2" and f2: "\<bar>f2 - 1\<bar> \<le> 1 / 10 ^ 15"
    using rounding_factor [OF R] rp by blast
  have g2: "\<bar>f1 * f2 - 1\<bar> \<le> 3 / 10 ^ 15"
    using factor_step [OF f1 _ f2] by simp
  have g3: "\<bar>f1 * f2 * f3 - 1\<bar> \<le> 5 / 10 ^ 15"
    using factor_step [OF g2 _ f3] by simp
  have s: "d * (c1 * f1) * f2 * (c2 * f3) = d * (0.99999720514 * (f1 * f2 * f3))"
  proof -
    have "d * (c1 * f1) * f2 * (c2 * f3) = d * (c1 * c2 * (f1 * f2 * f3))"
      by (simp only: mult_ac)
    then show ?thesis unfolding P .
  qed
  have k3: "1 / 4 \<le> 0.99999720514 * (f1 * f2 * f3) \<and> 0.99999720514 * (f1 * f2 * f3) \<le> 4"
    using g3 by (intro product_bounds) simp_all
  have rs: "min_normal \<le> \<bar>d * (0.99999720514 * (f1 * f2 * f3))\<bar>
      \<and> \<bar>d * (0.99999720514 * (f1 * f2 * f3))\<bar> \<le> max_double"
    using lo hi k3 by (intro in_range) simp_all
  obtain f4 where r: "rnd (d * (0.99999720514 * (f1 * f2 * f3))) =
      d * (0.99999720514 * (f1 * f2 * f3)) * f4" and f4: "\<bar>f4 - 1\<bar> \<le> 1 / 10 ^ 15"
    using rounding_factor [OF R] rs by blast
  have g4: "\<bar>f1 * f2 * f3 * f4 - 1\<bar> \<le> 7 / 10 ^ 15"
    using factor_step [OF g3 _ f4] by simp
  have res: "rnd (rnd (d * rnd c1) * rnd c2) = d * (0.99999720514 * (f1 * f2 * f3 * f4))"
    unfolding a b q s r by (simp only: mult.assoc)
  have close: "\<bar>0.99999720514 * (f1 * f2 * f3 * f4) - 1\<bar> \<le> (0.000003 :: real)"
    using g4 by (rule factor_close)
  have eq: "rnd (rnd (d * rnd c1) * rnd c2) - d
      = d * (0.99999720514 * (f1 * f2 * f3 * f4) - 1)"
    unfolding res by (simp only: right_diff_distrib mult_1_right)
  have "\<bar>rnd (rnd (d * rnd c1) * rnd c2) - d\<bar>
      = \<bar>d\<bar> * \<bar>0.99999720514 * (f1 * f2 * f3 * f4) - 1\<bar>"
    unfolding eq by (rule abs_mult)
  also have "\<dots> \<le> \<bar>d\<bar> * 0.000003"
    using close by (intro mult_left_mono) simp_all
  also have "\<dots> = 0.000003 * \<bar>d\<bar>"
    by (rule mult.commute)
  finally show ?thesis .
qed

lemma isclose_rel: "\<bar>r - d\<bar> \<le> rel * \<bar>d\<bar> \<Longrightarrow> 0 \<le> rel \<Longrightarrow> isclose rel r d"
proof -
  assume a: "\<bar>r - d\<bar> \<le> rel * \<bar>d\<bar>" and r: "0 \<le> rel"
  have "rel * \<bar>d\<bar> \<le> rel * max \<bar>r\<bar> \<bar>d\<bar>" using r by (intro mult_left_mono) simp_all
  with a show ?thesis by (simp add: isclose_def)
qed

text \<open>
  Claim C9, as amended. A distance converted to its own supported unit and back is the
  same number, whatever the distance. Between kilometres and miles the two factors are
  not inverse to each other: their product is 0.99999720514. For a distance that is zero
  or whose magnitude lies in the normal range of the doubles with a factor of four to
  spare, so that no product underflows or overflows, the round trip in double
  arithmetic returns the distance within a relative error of three millionths.
\<close>

theorem round_trip_within_tolerance:
  "(A \<in> distance_units \<longrightarrow> fl_round_trip rnd d A A = Inr d)
   \<and> (double_rounding rnd \<and> A \<in> distance_units \<and> B \<in> distance_units
        \<and> (d = 0 \<or> (4 * min_normal \<le> \<bar>d\<bar> \<and> \<bar>d\<bar> \<le> max_double / 4)) \<longrightarrow>
        (\<exists>r. fl_round_trip rnd d A B = Inr r \<and> isclose 0.000003 r d))"
proof -
  have same: "A \<in> distance_units \<Longrightarrow> fl_round_trip rnd d A A = Inr d" for A
    by (auto simp add: fl_round_trip_def bind_def fl_convert_distance_def distance_units_def)
  have km: "fl_round_trip rnd d ''km'' ''mi'' = Inr (rnd (rnd (d * rnd 0.621371) * rnd 1.60934))"
    by (simp add: fl_round_trip_def bind_def fl_convert_distance_def)
  have mi: "fl_round_trip rnd d ''mi'' ''km'' = Inr (rnd (rnd (d * rnd 1.60934) * rnd 0.621371))"
    by (simp add: fl_round_trip_def bind_def fl_convert_distance_def)
  have close0: "isclose 0.000003 d d" by (simp add: isclose_def)
  have zero: "double_rounding rnd \<Longrightarrow> rnd (rnd (0 * c) * c') = 0" for c c'
    by (simp add: double_rounding_def)
  have ckm: "isclose 0.000003 (rnd (rnd (d * rnd 0.621371) * rnd 1.60934)) d"
    if "double_rounding rnd" "d = 0 \<or> (4 * min_normal \<le> \<bar>d\<bar> \<and> \<bar>d\<bar> \<le> max_double / 4)"
  proof (cases "d = 0")
    case True
    then show ?thesis using zero [OF that(1)] by (simp add: isclose_def)
  next
    case False
    with that have "\<bar>rnd (rnd (d * rnd 0.621371) * rnd 1.60934) - d\<bar> \<le> 0.000003 * \<bar>d\<bar>"
      by (intro fl_product_close) simp_all
    then show ?thesis by (intro isclose_rel) simp_all
  qed
  have cmi: "isclose 0.000003 (rnd (rnd (d * rnd 1.60934) * rnd 0.621371)) d"
    if "double_rounding rnd" "d = 0 \<or> (4 * min_normal \<le> \<bar>d\<bar> \<and> \<bar>d\<bar> \<le> max_double / 4)"
  proof (cases "d = 0")
    case True
    then show ?thesis using zero [OF that(1)] by (simp add: isclose_def)
  next
    case False
    with that have "\<bar>rnd (rnd (d * rnd 1.60934) * rnd 0.621371) - d\<bar> \<le> 0.000003 * \<bar>d\<bar>"
      by (intro fl_product_close) simp_all
    then show ?thesis by (intro isclose_rel) simp_all
  qed
  have all: "\<exists>r. fl_round_trip rnd d A B = Inr r \<and> isclose 0.000003 r d"
    if "double_rounding rnd" "A \<in> distance_units" "B \<in> distance_units"
      "d = 0 \<or> (4 * min_normal \<le> \<bar>d\<bar> \<and> \<bar>d\<bar> \<le> max_double / 4)"
    using that same [of "''km''"] same [of "''mi''"] km mi close0 ckm cmi
    by (auto simp add: distance_units_def)
  from same all show ?thesis by blast
qed

theorem round_trip_within_tolerance_witness:
  "fl_round_trip (\<lambda>x. x * (1 + 1 / 2 ^ 53)) 5 ''mi'' ''mi'' = Inr 5
   \<and> (\<exists>r. fl_round_trip (\<lambda>x. x * (1 + 1 / 2 ^ 53)) 1 ''km'' ''mi'' = Inr r
          \<and> isclose 0.000003 r 1)"
proof -
  let ?rnd = "\<lambda>x :: real. x * (1 + 1 / 2 ^ 53)"
  have m: "''km'' \<in> distance_units" "''mi'' \<in> distance_units"
    by (simp_all add: distance_units_def)
  have e: "\<bar>?rnd x - x\<bar> = \<bar>x\<bar> / 2 ^ 53" for x
  proof -
    have "?rnd x - x = x / 2 ^ 53" by (simp add: algebra_simps)
    then show ?thesis by (simp only: abs_divide) simp
  qed
  have R: "double_rounding ?rnd"
    unfolding double_rounding_def using e by simp
  have lo: "4 * min_normal \<le> \<bar>1 :: real\<bar>" using min_normal_bounds(2) by simp
  have hi: "\<bar>1 :: real\<bar> \<le> max_double / 4" using max_double_bound by simp
  have 1: "fl_round_trip ?rnd 5 ''mi'' ''mi'' = Inr 5"
    using round_trip_within_tolerance [where A = "''mi''" and rnd = ?rnd and d = 5] m by blast
  have 2: "\<exists>r. fl_round_trip ?rnd 1 ''km'' ''mi'' = Inr r \<and> isclose 0.000003 r 1"
    using round_trip_within_tolerance [where A = "''km''" and B = "''mi''" and rnd = ?rnd
        and d = 1] m R lo hi by blast
  from 1 2 show ?thesis by blast
qed

text \<open>
  The claim as it was stated fails at a million kilometres: in exact arithmetic the round
  trip through miles returns 999997.20514, which is 2.79486 kilometres short and not
  within a relative tolerance of one millionth.
\<close>

theorem round_trip_not_close:
  "round_trip 1000000 ''km'' ''mi'' = Inr 999997.20514
   \<and> \<not> isclose 0.000001 999997.20514 1000000"
  by (simp add: round_trip_def bind_def convert_distance_def isclose_def)

section \<open>Speed\<close>

text \<open>
  Claim C4, as amended. \<^verbatim>\<open>calculate_speed\<close> validates a unit only inside a conversion,
  and it converts only when a unit differs from the unit of the output. When the
  distance unit differs from the output distance unit, an unsupported distance unit
  raises the error of an invalid distance unit and, under a supported one, an
  unsupported output distance unit raises the error of the output unit. When the
  distance is converted without error or need not be, and the time unit differs from
  the output time unit, an unsupported time unit raises the error of an invalid time
  unit. When both units equal their output units nothing is validated: for a time other
  than zero the quotient is returned.
\<close>

theorem calculate_speed_invalid_unit:
  "(distance_unit \<noteq> effective_unit distance_unit odu \<and> distance_unit \<notin> distance_units \<longrightarrow>
      calculate_speed x y distance_unit time_unit odu otu =
        Inl (ValueError (''Invalid distance unit: '' @ distance_unit)))
   \<and> (distance_unit \<noteq> effective_unit distance_unit odu \<and> distance_unit \<in> distance_units
        \<and> effective_unit distance_unit odu \<notin> distance_units \<longrightarrow>
      calculate_speed x y distance_unit time_unit odu otu =
        Inl (ValueError output_unit_message))
   \<and> ((distance_unit = effective_unit distance_unit odu
         \<or> (distance_unit \<in> distance_units \<and> effective_unit distance_unit odu \<in> distance_units))
        \<and> time_unit \<noteq> effective_unit time_unit otu \<and> time_unit \<notin> time_units \<longrightarrow>
      calculate_speed x y distance_unit time_unit odu otu =
        Inl (ValueError (''Invalid time unit: '' @ time_unit)))
   \<and> (distance_unit = effective_unit distance_unit odu
        \<and> time_unit = effective_unit time_unit otu \<and> y \<noteq> 0 \<longrightarrow>
      calculate_speed x y distance_unit time_unit odu otu = Inr (x / y))"
  by (auto simp add: speed_simps effective_unit_def distance_units_def time_units_def)

theorem calculate_speed_invalid_unit_witness:
  "calculate_speed 5 1 ''m'' ''hours'' ''km'' [] = Inl (ValueError ''Invalid distance unit: m'')
   \<and> calculate_speed 5 1 ''mi'' ''hours'' ''m'' [] = Inl (ValueError output_unit_message)
   \<and> calculate_speed 5 1 ''km'' ''days'' [] ''hours'' = Inl (ValueError ''Invalid time unit: days'')
   \<and> calculate_speed 5 2 ''km'' ''days'' ''km'' [] = Inr (5 / 2)"
proof -
  have 1: "calculate_speed 5 1 ''m'' ''hours'' ''km'' [] =
      Inl (ValueError ''Invalid distance unit: m'')"
    using calculate_speed_invalid_unit [where distance_unit = "''m''" and odu = "''km''"
        and x = 5 and y = 1 and time_unit = "''hours''" and otu = "[]"]
    by (simp add: effective_unit_def distance_units_def time_units_def)
  have 2: "calculate_speed 5 1 ''mi'' ''hours'' ''m'' [] = Inl (ValueError output_unit_message)"
    using calculate_speed_invalid_unit [where distance_unit = "''mi''" and odu = "''m''"
        and x = 5 and y = 1 and time_unit = "''hours''" and otu = "[]"]
    by (simp add: effective_unit_def distance_units_def time_units_def)
  have 3: "calculate_speed 5 1 ''km'' ''days'' [] ''hours'' =
      Inl (ValueError ''Invalid time unit: days'')"
    using calculate_speed_invalid_unit [where distance_unit = "''km''" and odu = "[]"
        and x = 5 and y = 1 and time_unit = "''days''" and otu = "''hours''"]
    by (simp add: effective_unit_def distance_units_def time_units_def)
  have 4: "calculate_speed 5 2 ''km'' ''days'' ''km'' [] = Inr (5 / 2)"
    using calculate_speed_invalid_unit [where distance_unit = "''km''" and odu = "''km''"
        and x = 5 and y = 2 and time_unit = "''days''" and otu = "[]"]
    by (simp add: effective_unit_def distance_units_def time_units_def)
  from 1 2 3 4 show ?thesis by blast
qed

text \<open>
  The claim as it was stated fails on a distance unit outside the supported set that is
  also the unit of the output: nothing is converted and the speed is returned.
\<close>

theorem calculate_speed_unvalidated_unit:
  "''m'' \<notin> distance_units \<and> calculate_speed 5 1 ''m'' ''hours'' [] [] = Inr 5"
  by (simp add: speed_simps distance_units_def)

text \<open>
  Claim C10. When the output distance unit is empty or equal to the distance unit and the
  output time unit is empty or equal to the time unit, a time of zero makes
  \<^verbatim>\<open>calculate_speed\<close> raise \<^verbatim>\<open>ZeroDivisionError\<close>, whatever the distance, and no
  conversion function has been called.
\<close>

theorem calculate_speed_zero_time:
  assumes "output_distance_unit = [] \<or> output_distance_unit = distance_unit"
    and "output_time_unit = [] \<or> output_time_unit = time_unit"
  shows "calculate_speed_run d 0 distance_unit time_unit output_distance_unit output_time_unit
           = ([], Inl ZeroDivisionError)
       \<and> calculate_speed d 0 distance_unit time_unit output_distance_unit output_time_unit
           = Inl ZeroDivisionError"
  using assms by (auto simp add: speed_simps)

theorem calculate_speed_zero_time_witness:
  "calculate_speed_run 5 0 ''km'' ''hours'' [] [] = ([], Inl ZeroDivisionError)
   \<and> calculate_speed 5 0 ''mi'' ''minutes'' ''mi'' ''minutes'' = Inl ZeroDivisionError"
  using calculate_speed_zero_time [of "[]" "''km''" "[]" "''hours''" 5]
    calculate_speed_zero_time [of "''mi''" "''mi''" "''minutes''" "''minutes''" 5]
  by simp

section \<open>Time differences\<close>

lemma datetime_sub_swap: "datetime_sub a b = - datetime_sub b a"
  by (simp add: datetime_sub_def)

lemma elapsed_seconds_swap: "elapsed_seconds a b = elapsed_seconds b a"
  by (simp add: elapsed_seconds_def total_seconds_def datetime_sub_swap [of a b])

text \<open>
  Claim C6. For two timestamps that parse, \<^verbatim>\<open>time_difference\<close> returns the absolute
  elapsed seconds divided by the divisor that the table gives for the unit: 1, 60, 3600,
  86400, 604800 and 31556926 for seconds, minutes, hours, days, weeks and years. For a
  unit outside these six it raises the \<^verbatim>\<open>ValueError\<close> of an invalid unit.
\<close>

theorem time_difference_divisors:
  assumes "strptime t1 timestamp_format = Inr a" and "strptime t2 timestamp_format = Inr b"
  shows "(unit \<in> difference_units \<longrightarrow>
            (\<exists>dv. unit_divisor unit = Some dv
               \<and> time_difference strptime t1 t2 unit = Inr (elapsed_seconds a b / dv)))
       \<and> (unit \<notin> difference_units \<longrightarrow>
            time_difference strptime t1 t2 unit = Inl (ValueError (invalid_unit_message unit)))
       \<and> map (\<lambda>u. unit_divisor u)
            [''seconds'', ''minutes'', ''hours'', ''days'', ''weeks'', ''years'']
           = [Some 1, Some 60, Some 3600, Some 86400, Some 604800, Some 31556926]"
  using assms
  by (auto simp add: time_difference_def bind_def elapsed_seconds_def unit_divisor_def
      difference_units_def)

theorem time_difference_divisors_witness:
  "time_difference strptime_wire ''1900-01-01 00:00:00 -0500'' ''1900-01-08 00:00:00 -0500''
      ''weeks'' = Inr 1
   \<and> time_difference strptime_wire ''1900-01-01 00:00:00 -0500'' ''1900-01-08 00:00:00 -0500''
      ''fortnights'' = Inl (ValueError (invalid_unit_message ''fortnights''))"
proof -
  let ?a = "\<lparr>year = 1900, month = 1, day = 1, hour = 0, minute = 0, second = 0,
             microsecond = 0, utcoffset = - 18000000000\<rparr>"
  let ?b = "\<lparr>year = 1900, month = 1, day = 8, hour = 0, minute = 0, second = 0,
             microsecond = 0, utcoffset = - 18000000000\<rparr>"
  have a: "strptime_wire ''1900-01-01 00:00:00 -0500'' timestamp_format = Inr ?a"
    by (simp add: timestamp_simps)
  have b: "strptime_wire ''1900-01-08 00:00:00 -0500'' timestamp_format = Inr ?b"
    by (simp add: timestamp_simps)
  have e: "elapsed_seconds ?a ?b = 604800"
    by (simp add: elapsed_seconds_def timestamp_simps)
  have 1: "time_difference strptime_wire ''1900-01-01 00:00:00 -0500''
      ''1900-01-08 00:00:00 -0500'' ''weeks'' = Inr 1"
    using time_difference_divisors [where strptime = strptime_wire and unit = "''weeks''",
        OF a b] e
    by (simp add: difference_units_def unit_divisor_def)
  have 2: "time_difference strptime_wire ''1900-01-01 00:00:00 -0500''
      ''1900-01-08 00:00:00 -0500'' ''fortnights'' =
        Inl (ValueError (invalid_unit_message ''fortnights''))"
    using time_difference_divisors [where strptime = strptime_wire
        and unit = "''fortnights''", OF a b]
    by (simp add: difference_units_def)
  from 1 2 show ?thesis by blast
qed

text \<open>
  Claim C8. For two timestamps that parse, \<^verbatim>\<open>time_difference\<close> gives the same result in
  either order of its arguments, in every unit.
\<close>

theorem time_difference_symmetric:
  assumes "strptime a timestamp_format = Inr da" and "strptime b timestamp_format = Inr db"
  shows "time_difference strptime a b unit = time_difference strptime b a unit"
  using assms
  by (simp add: time_difference_def bind_def total_seconds_def datetime_sub_swap [of da db])

theorem time_difference_symmetric_witness:
  "time_difference strptime_wire ''1901-01-01 00:00:00 -0400'' ''1900-01-01 00:00:00 -0500''
      ''hours''
   = time_difference strptime_wire ''1900-01-01 00:00:00 -0500'' ''1901-01-01 00:00:00 -0400''
      ''hours''
   \<and> time_difference strptime_wire ''1901-01-01 00:00:00 -0400'' ''1900-01-01 00:00:00 -0500''
      ''hours'' = Inr 8759"
proof -
  have a: "strptime_wire ''1901-01-01 00:00:00 -0400'' timestamp_format =
      Inr \<lparr>year = 1901, month = 1, day = 1, hour = 0, minute = 0, second = 0,
           microsecond = 0, utcoffset = - 14400000000\<rparr>"
    by (simp add: timestamp_simps)
  have b: "strptime_wire ''1900-01-01 00:00:00 -0500'' timestamp_format =
      Inr \<lparr>year = 1900, month = 1, day = 1, hour = 0, minute = 0, second = 0,
           microsecond = 0, utcoffset = - 18000000000\<rparr>"
    by (simp add: timestamp_simps)
  have v: "time_difference strptime_wire ''1900-01-01 00:00:00 -0500''
      ''1901-01-01 00:00:00 -0400'' ''hours'' = Inr 8759"
    by (simp add: timestamp_simps)
  from time_difference_symmetric [where strptime = strptime_wire and unit = "''hours''",
      OF a b] v
  show ?thesis by simp
qed

section \<open>The example filter\<close>

text \<open>
  Claim C5. The claim asks that \<^verbatim>\<open>example_filter\<close> never raises on a well-formed
  element. On a running workout without a \<^verbatim>\<open>duration\<close> attribute
  \<^verbatim>\<open>element.get\<close> returns \<^verbatim>\<open>None\<close> and \<^verbatim>\<open>float(None)\<close> raises
  \<^verbatim>\<open>TypeError\<close>, whatever the parser of floats does on strings.
\<close>

theorem example_filter_missing_duration_raises:
  "example_filter py_float run_without_duration = Inl TypeError"
  by (simp add: example_filter_def run_without_duration_def element_get_def float_of_get_def
      bind_def)

text \<open>The exception reaches the caller of \<^verbatim>\<open>filter_elements\<close>.\<close>

lemma filter_elements_example_filter_raises:
  "filter_elements (example_filter py_float) (\<lambda>a. run_without_duration) [0] = Inl TypeError"
  by (simp add: filter_elements_def example_filter_def run_without_duration_def
      element_get_def float_of_get_def bind_def)

end
